theory Spec2Isabelle
  imports Complex_Main
begin

section \<open>The deck page \<open>/decks/[code]\<close>: static generation\<close>

subsection \<open>Data model\<close>

text \<open>
  The closed enumeration \<open>Privacy\<close> of the persistence schema
  (\<open>'private'\<close>, \<open>'unlisted'\<close>, \<open>'public'\<close>) and the fields of a decklyst record that
  the page glue reads.
\<close>

datatype Privacy = Private | Unlisted | Public

record decklyst =
  deckcode :: string
  sharecode :: string
  privacy :: Privacy

text \<open>
  An error thrown by a server-side procedure call; the string is its code
  (\<open>'UNAUTHORIZED'\<close>, \<open>'NOT_FOUND'\<close>, ...).
\<close>

datatype trpc_error = TRPCError string

subsection \<open>The query client of the SSG helper\<close>

text \<open>
  The query client holds a cache of queries and a cache of mutations. A cached query of
  \<open>decklyst.get\<close> is keyed by its input \<open>{ code, ssrSecret }\<close> and holds the data
  the procedure returned. \<open>dehydrate\<close> is the query library's function: it keeps the
  mutations that are paused and the queries that \<open>shouldDehydrateQuery\<close> accepts, in
  cache order.
\<close>

record cached_query =
  queryKey :: "string \<times> string"
  queryData :: "decklyst option"

record cached_mutation =
  mutationKey :: string
  isPaused :: bool

record query_client =
  queryCache :: "cached_query list"
  mutationCache :: "cached_mutation list"

record dehydrated_state =
  mutations :: "cached_mutation list"
  queries :: "cached_query list"

definition dehydrate :: "(cached_query \<Rightarrow> bool) \<Rightarrow> query_client \<Rightarrow> dehydrated_state" where
  "dehydrate shouldDehydrateQuery client =
     \<lparr> mutations = filter isPaused (mutationCache client),
       queries = filter shouldDehydrateQuery (queryCache client) \<rparr>"

text \<open>
  Storing the data of a fetched query: the entry with the same key is replaced, a new key
  is appended.
\<close>

definition setQueryData ::
  "string \<times> string \<Rightarrow> decklyst option \<Rightarrow> cached_query list \<Rightarrow> cached_query list" where
  "setQueryData k d qs =
     (if list_ex (\<lambda>q. queryKey q = k) qs
      then map (\<lambda>q. if queryKey q = k then q\<lparr>queryData := d\<rparr> else q) qs
      else qs @ [\<lparr> queryKey = k, queryData = d \<rparr>])"

text \<open>
  What \<open>getStaticProps\<close> takes from its surroundings: the server secret of the
  environment module, the client that \<open>createSSGClient\<close> returns, and the
  \<open>decklyst.get\<close> procedure, which answers a code and a secret with a decklyst,
  with \<open>null\<close>, or throws.
\<close>

record static_env =
  SSR_SECRET :: string
  createSSGClient :: query_client
  decklyst_get :: "string \<Rightarrow> string \<Rightarrow> trpc_error + decklyst option"

text \<open>
  \<open>ssg.decklyst.get.fetch\<close>: runs the procedure; a thrown error propagates, a result is
  stored in the query cache and returned.
\<close>

definition fetch ::
  "static_env \<Rightarrow> query_client \<Rightarrow> string \<Rightarrow> string
     \<Rightarrow> trpc_error + (decklyst option \<times> query_client)" where
  "fetch env ssg c secret =
     (case decklyst_get env c secret of
        Inl e \<Rightarrow> Inl e
      | Inr d \<Rightarrow> Inr (d, ssg\<lparr>queryCache := setQueryData (c, secret) d (queryCache ssg)\<rparr>))"

subsection \<open>\<open>getStaticProps\<close>\<close>

record props =
  code :: string
  trpcState :: dehydrated_state
  decklyst :: "decklyst option"

text \<open>
  The two results of \<open>getStaticProps\<close>: \<open>{ notFound: true }\<close>, with or without
  \<open>revalidate\<close>, and \<open>{ props }\<close>.
\<close>

datatype static_result = NotFound "bool option" | Props props

fun is_notFound :: "static_result \<Rightarrow> bool" where
  "is_notFound (NotFound _) = True"
| "is_notFound (Props _) = False"

text \<open>
  The argument is \<open>ctx.params?.code\<close>: \<open>None\<close> when the parameter is absent.
  \<open>!code\<close> holds of an absent and of an empty code.
\<close>

definition getStaticProps :: "static_env \<Rightarrow> string option \<Rightarrow> trpc_error + static_result" where
  "getStaticProps env params_code =
     (case params_code of
        None \<Rightarrow> Inr (NotFound None)
      | Some c \<Rightarrow>
          if c = [] then Inr (NotFound None)
          else
            (case fetch env (createSSGClient env) c (SSR_SECRET env) of
               Inl e \<Rightarrow> Inl e
             | Inr (d, ssg) \<Rightarrow>
                 (let isPrivate = (case d of None \<Rightarrow> False | Some x \<Rightarrow> privacy x = Private)
                  in case d of
                       Some x \<Rightarrow>
                         Inr (Props \<lparr> code = c,
                                      trpcState = dehydrate (\<lambda>_. \<not> isPrivate) ssg,
                                      decklyst = (if isPrivate then None else d) \<rparr>)
                     | None \<Rightarrow> Inr (NotFound (Some True)))))"

subsection \<open>\<open>getStaticPaths\<close>\<close>

text \<open>
  \<open>prisma.decklyst.findMany\<close> with \<open>select: { deckcode, sharecode }\<close> and
  \<open>where: { privacy: { not: 'private' } }\<close>. The table is the list of its rows, in
  the order the store returns them.
\<close>

definition findMany :: "decklyst list \<Rightarrow> (string \<times> string) list" where
  "findMany db = map (\<lambda>d. (deckcode d, sharecode d)) (filter (\<lambda>d. privacy d \<noteq> Private) db)"

text \<open>
  \<open>encodeURIComponent\<close> on a string held as its UTF-8 bytes: the unreserved characters
  \<open>A-Z a-z 0-9 - _ . ! ~ * ' ( )\<close> stay, every other byte becomes \<open>%XX\<close> with
  upper-case hexadecimal digits. The result is ASCII.
\<close>

definition uriUnreserved :: "char \<Rightarrow> bool" where
  "uriUnreserved ch =
     (let n = (of_char ch :: nat)
      in (65 \<le> n \<and> n \<le> 90) \<or> (97 \<le> n \<and> n \<le> 122) \<or> (48 \<le> n \<and> n \<le> 57)
         \<or> ch \<in> set ''-_.!~*'()'')"

definition hexDigit :: "nat \<Rightarrow> char" where
  "hexDigit n = ''0123456789ABCDEF'' ! (n mod 16)"

definition encodeURIComponent :: "string \<Rightarrow> string" where
  "encodeURIComponent s =
     concat (map (\<lambda>ch. if uriUnreserved ch then [ch]
                        else [CHR ''%'', hexDigit (of_char ch div 16), hexDigit (of_char ch mod 16)]) s)"

text \<open>
  \<open>toLowerCase\<close> on ASCII text, which is what the encoded paths are: the letters
  \<open>A-Z\<close> map to \<open>a-z\<close>.
\<close>

definition toLowerCase :: "string \<Rightarrow> string" where
  "toLowerCase s =
     map (\<lambda>ch. let n = (of_char ch :: nat)
                in if 65 \<le> n \<and> n \<le> 90 then char_of (n + 32) else ch) s"

text \<open>
  lodash's \<open>uniqBy\<close>: walks the array once, keeps the criteria seen so far, and keeps an
  element when its criterion is new.
\<close>

fun baseUniq :: "('a \<Rightarrow> 'b) \<Rightarrow> 'a list \<Rightarrow> 'b list \<Rightarrow> 'a list" where
  "baseUniq iteratee [] seen = []"
| "baseUniq iteratee (x # xs) seen =
     (if iteratee x \<in> set seen then baseUniq iteratee xs seen
      else x # baseUniq iteratee xs (iteratee x # seen))"

definition uniqBy :: "'a list \<Rightarrow> ('a \<Rightarrow> 'b) \<Rightarrow> 'a list" where
  "uniqBy array iteratee = baseUniq iteratee array []"

text \<open>
  The argument of \<open>uniqBy\<close> in \<open>getStaticPaths\<close>: both codes of every row found, turned
  into paths, filtered by the length of the path.
\<close>

definition candidate_paths :: "decklyst list \<Rightarrow> string list" where
  "candidate_paths db =
     filter (\<lambda>c. length c > 0 \<and> length c \<le> 205)
       (map (\<lambda>c. ''/decks/'' @ encodeURIComponent c)
          (concat (map (\<lambda>(dcode, scode). [dcode, scode]) (findMany db))))"

datatype fallback_mode = Blocking

record static_paths =
  paths :: "string list"
  fallback :: fallback_mode

definition getStaticPaths :: "decklyst list \<Rightarrow> static_paths" where
  "getStaticPaths db = \<lparr> paths = uniqBy (candidate_paths db) toLowerCase, fallback = Blocking \<rparr>"

subsection \<open>The client-side query of the deck page and its retry predicate\<close>

text \<open>
  The error a failed \<open>decklyst.get\<close> query hands to \<open>retry\<close>: its \<open>data\<close> may be
  absent, and \<open>error.data?.code\<close> is then \<open>undefined\<close>.
\<close>

record error_data =
  data_code :: string

record trpc_client_error =
  data :: "error_data option"

definition decklyst_get_retry :: "nat \<Rightarrow> trpc_client_error \<Rightarrow> bool" where
  "decklyst_get_retry count error =
     (if map_option data_code (data error) = Some ''UNAUTHORIZED'' then False else count < 3)"

subsection \<open>The retry loop of the query library\<close>

text \<open>
  The \<open>retry\<close> option is a boolean, a number or a function. After a failed attempt the
  library asks \<open>shouldRetry\<close> with the number of failures so far, which starts at 0; when
  the answer is yes it increments the failure count, sleeps for
  \<open>retryDelay failureCount error\<close> and runs the query function again. The outcome of
  the attempt made after \<open>n\<close> failures is \<open>fn n\<close>. The loop returns the final outcome and
  the delays it slept, in order, as \<open>retryDelay\<close> computed them; a loop that never
  ends is the value \<open>None\<close>.
\<close>

datatype 'e retry_option = RetryBool bool | RetryCount nat | RetryFn "nat \<Rightarrow> 'e \<Rightarrow> bool"

fun shouldRetry :: "'e retry_option \<Rightarrow> nat \<Rightarrow> 'e \<Rightarrow> bool" where
  "shouldRetry (RetryBool b) failureCount error = b"
| "shouldRetry (RetryCount n) failureCount error = (failureCount < n)"
| "shouldRetry (RetryFn f) failureCount error = f failureCount error"

partial_function (option) retryer ::
  "'e retry_option \<Rightarrow> (nat \<Rightarrow> 'e \<Rightarrow> 't) \<Rightarrow> (nat \<Rightarrow> 'e + 'd) \<Rightarrow> nat \<Rightarrow> 't list
     \<Rightarrow> (('e + 'd) \<times> 't list) option" where
  "retryer retry retryDelay fn failureCount slept =
     (case fn failureCount of
        Inr d \<Rightarrow> Some (Inr d, slept)
      | Inl e \<Rightarrow>
          if shouldRetry retry failureCount e
          then retryer retry retryDelay fn (Suc failureCount) (slept @ [retryDelay failureCount e])
          else Some (Inl e, slept))"

section \<open>The deck page \<open>/decks/[code]\<close>: server-side rendering\<close>

subsection \<open>JavaScript numbers\<close>

text \<open>
  A JavaScript number is a double: not-a-number, an infinity, or a finite value, held
  here as the real number it stands for.
\<close>

datatype jsnum = NaN | PosInfinity | NegInfinity | Finite real

text \<open>
  \<open>Math.pow(2, k)\<close> for a natural number \<open>k\<close>: the power itself while it is a double,
  that is up to \<open>k = 1023\<close>, and \<open>Infinity\<close> from \<open>k = 1024\<close>.
\<close>

definition math_pow2 :: "nat \<Rightarrow> jsnum" where
  "math_pow2 k = (if k \<le> 1023 then Finite (2 ^ k) else PosInfinity)"

subsection \<open>The deck-image query\<close>

text \<open>
  The options \<open>retry: true\<close> and
  \<open>retryDelay: (retryCount) => 1000 * Math.pow(2, Math.max(0, retryCount - 5))\<close> of the
  \<open>deck-image\<close> query. The count is a natural number and the delay is in milliseconds.
  The product of 1000 and a power of two is computed without rounding while it is below
  \<open>2 ^ 1024\<close>, and overflows to \<open>Infinity\<close> otherwise; 1000 times \<open>Infinity\<close> is
  \<open>Infinity\<close>.
\<close>

definition deck_image_retry :: "'e retry_option" where
  "deck_image_retry = RetryBool True"

definition deck_image_retryDelay :: "nat \<Rightarrow> jsnum" where
  "deck_image_retryDelay retryCount =
     (case math_pow2 (nat (max 0 (int retryCount - 5))) of
        Finite p \<Rightarrow> if 1000 * p < 2 ^ 1024 then Finite (1000 * p) else PosInfinity
      | x \<Rightarrow> x)"

subsection \<open>\<open>getServerSideProps\<close>\<close>

text \<open>
  The numeric value of \<open>+s\<close> for a string \<open>s\<close> is a parameter of the page, a
  JavaScript number.
\<close>

text \<open>
  What \<open>getDeckinfo\<close> and \<open>ensureDeckinfo\<close> answer: \<open>null\<close> or a record whose
  \<open>deckcode\<close> and \<open>sharecode\<close> may be absent.
\<close>

record deckinfo =
  info_deckcode :: "string option"
  info_sharecode :: "string option"

record 'c deck =
  cards :: "'c list"

text \<open>The procedure calls the page issues, in the order it issues them.\<close>

datatype rpc_call =
    GetDeckinfo string
  | EnsureDeckinfo string
  | RegisterView "string option" string

fun is_RegisterView :: "rpc_call \<Rightarrow> bool" where
  "is_RegisterView (RegisterView _ _) = True"
| "is_RegisterView _ = False"

text \<open>
  What \<open>getServerSideProps\<close> takes from its surroundings: the numeric value of a string,
  the three procedures of the client that \<open>createSsrClient\<close> returns (each answers or
  throws), \<open>validateDeckcode\<close> and \<open>createDeck\<close> of the deck modules, and
  \<open>getIpAddress\<close>.
\<close>

record ('req, 'c) ssr_env =
  toNumber :: "string \<Rightarrow> jsnum"
  getDeckinfo :: "string \<Rightarrow> trpc_error + deckinfo option"
  ensureDeckinfo :: "string \<Rightarrow> trpc_error + deckinfo option"
  registerView :: "string option \<Rightarrow> string \<Rightarrow> trpc_error + unit"
  validateDeckcode :: "string option \<Rightarrow> bool"
  createDeck :: "string option \<Rightarrow> 'c deck"
  getIpAddress :: "'req \<Rightarrow> string"

record 'c ssr_props =
  deck :: "'c deck"
  meta_sharecode :: "string option"
  isSnapshot :: bool

datatype 'c ssr_result = SsrNotFound | SsrProps "'c ssr_props"

text \<open>\<open>+(query.snapshot ?? '0') === 1\<close>\<close>

definition snapshot_of :: "('req, 'c) ssr_env \<Rightarrow> string option \<Rightarrow> bool" where
  "snapshot_of env query_snapshot =
     (toNumber env (case query_snapshot of None \<Rightarrow> ''0'' | Some s \<Rightarrow> s) = Finite 1)"

text \<open>
  The block \<open>if (code) { ... }\<close>: the deckcode and the sharecode the page continues
  with, and the call it issued. An absent or empty code issues no call.
\<close>

definition resolve_codes ::
  "('req, 'c) ssr_env \<Rightarrow> bool \<Rightarrow> string option
     \<Rightarrow> (trpc_error + (string option \<times> string option)) \<times> rpc_call list" where
  "resolve_codes env snapshot query_code =
     (case query_code of
        None \<Rightarrow> (Inr (None, None), [])
      | Some c \<Rightarrow>
          if c = [] then (Inr (Some c, None), [])
          else
            (case (if snapshot then getDeckinfo env c else ensureDeckinfo env c) of
               Inl e \<Rightarrow> (Inl e, [if snapshot then GetDeckinfo c else EnsureDeckinfo c])
             | Inr info \<Rightarrow>
                 (Inr (case Option.bind info info_deckcode of None \<Rightarrow> Some c | Some dc \<Rightarrow> Some dc,
                       Option.bind info info_sharecode),
                  [if snapshot then GetDeckinfo c else EnsureDeckinfo c])))"

definition getServerSideProps ::
  "('req, 'c) ssr_env \<Rightarrow> 'req \<Rightarrow> string option \<Rightarrow> string option
     \<Rightarrow> (trpc_error + 'c ssr_result) \<times> rpc_call list" where
  "getServerSideProps env req query_code query_snapshot =
     (let snapshot = snapshot_of env query_snapshot
      in case resolve_codes env snapshot query_code of
           (Inl e, calls) \<Rightarrow> (Inl e, calls)
         | (Inr (dcode, scode), calls) \<Rightarrow>
             if \<not> validateDeckcode env dcode then (Inr SsrNotFound, calls)
             else
               (let dk = createDeck env dcode
                in if length (cards dk) = 0 then (Inr SsrNotFound, calls)
                   else if \<not> snapshot then
                     (case registerView env dcode (getIpAddress env req) of
                        Inl e \<Rightarrow> (Inl e, calls @ [RegisterView dcode (getIpAddress env req)])
                      | Inr _ \<Rightarrow>
                          (Inr (SsrProps \<lparr> deck = dk, meta_sharecode = scode,
                                           isSnapshot = snapshot \<rparr>),
                           calls @ [RegisterView dcode (getIpAddress env req)]))
                   else
                     (Inr (SsrProps \<lparr> deck = dk, meta_sharecode = scode,
                                      isSnapshot = snapshot \<rparr>),
                      calls)))"

section \<open>The save-deck dialog\<close>

text \<open>
  \<open>handleClose\<close> of \<open>SaveDeckDialog\<close>. The callback \<open>onClose\<close> of the parent acts on
  the parent's state; \<open>isSaving\<close> is the \<open>isLoading\<close> flag of the upsert mutation.
\<close>

definition handleClose :: "('s \<Rightarrow> 's) \<Rightarrow> bool \<Rightarrow> 's \<Rightarrow> 's" where
  "handleClose onClose isSaving s = (if isSaving then s else onClose s)"

section \<open>Example data\<close>

text \<open>
  Concrete surroundings on which the definitions above are run: a fresh query client,
  a few decklysts, two client errors, and stand-ins for the procedures and the deck
  modules of the pages.
\<close>

text \<open>
  Modelled from the spec: the \<open>decklyst.get\<close> procedure, whose source is not part of
  the files at hand. The route "resolves to a deck by deckcode or sharecode": the
  procedure answers with the first stored decklyst whose deckcode or sharecode is the
  code, and with \<open>null\<close> when there is none.
\<close>

definition store_get :: "decklyst list \<Rightarrow> string \<Rightarrow> string \<Rightarrow> trpc_error + decklyst option" where
  "store_get db c secret = Inr (find (\<lambda>d. deckcode d = c \<or> sharecode d = c) db)"

definition empty_client :: query_client where
  "empty_client = \<lparr> queryCache = [], mutationCache = [] \<rparr>"

definition example_env :: "decklyst list \<Rightarrow> static_env" where
  "example_env db =
     \<lparr> SSR_SECRET = ''s3cret'', createSSGClient = empty_client, decklyst_get = store_get db \<rparr>"

definition secret_deck :: decklyst where
  "secret_deck = \<lparr> deckcode = ''MTox'', sharecode = ''abcd'', privacy = Private \<rparr>"

definition long_code :: string where
  "long_code = replicate 206 CHR ''A''"

definition long_deck :: decklyst where
  "long_deck = \<lparr> deckcode = long_code, sharecode = ''wxyz'', privacy = Public \<rparr>"

definition d1 :: decklyst where
  "d1 = \<lparr> deckcode = ''MTox [a]'', sharecode = ''AbCd'', privacy = Public \<rparr>"

definition d2 :: decklyst where
  "d2 = \<lparr> deckcode = ''mtOX [A]'', sharecode = ''abcd'', privacy = Unlisted \<rparr>"

definition d3 :: decklyst where
  "d3 = \<lparr> deckcode = ''zzz'', sharecode = ''yyy'', privacy = Private \<rparr>"

definition d4 :: decklyst where
  "d4 = \<lparr> deckcode = ''Nzk5'', sharecode = ''wxyz'', privacy = Public \<rparr>"

definition unauthorized_error :: trpc_client_error where
  "unauthorized_error = \<lparr> data = Some \<lparr> data_code = ''UNAUTHORIZED'' \<rparr> \<rparr>"

definition timeout_error :: trpc_client_error where
  "timeout_error = \<lparr> data = Some \<lparr> data_code = ''TIMEOUT'' \<rparr> \<rparr>"

definition image_ready_after :: "nat \<Rightarrow> nat \<Rightarrow> string + string" where
  "image_ready_after k n = (if n < k then Inl ''image not ready'' else Inr ''data:image/png'')"

definition example_toNumber :: "string \<Rightarrow> jsnum" where
  "example_toNumber s = (if s = ''1'' then Finite 1 else if s = ''0'' then Finite 0 else NaN)"

definition example_deckinfo :: "string \<Rightarrow> trpc_error + deckinfo option" where
  "example_deckinfo c =
     Inr (if c = ''abcd'' then Some \<lparr> info_deckcode = Some ''MTox'', info_sharecode = Some ''abcd'' \<rparr>
          else None)"

definition example_ssr_env :: "(string, nat) ssr_env" where
  "example_ssr_env =
     \<lparr> toNumber = example_toNumber,
       getDeckinfo = example_deckinfo,
       ensureDeckinfo = example_deckinfo,
       registerView = (\<lambda>_ _. Inr ()),
       validateDeckcode = (\<lambda>d. d = Some ''MTox'' \<or> d = Some ''MDo=''),
       createDeck = (\<lambda>d. \<lparr> cards = (if d = Some ''MTox'' then [1] else []) \<rparr>),
       getIpAddress = (\<lambda>req. req) \<rparr>"

section \<open>Properties of the static deck page\<close>

lemma fetch_Inr:
  "decklyst_get env c secret = Inr d \<Longrightarrow>
   fetch env ssg c secret =
     Inr (d, ssg\<lparr>queryCache := setQueryData (c, secret) d (queryCache ssg)\<rparr>)"
  by (simp add: fetch_def)

text \<open>
  C1. When the decklyst that \<open>getStaticProps\<close> fetches is private, the props it returns
  are fixed by the requested code and the client it started from alone: the
  \<open>decklyst\<close> prop is \<open>null\<close> and the dehydrated state holds no query, whatever the
  private record and the query cache contain.
\<close>

theorem getStaticProps_private_props:
  assumes "c \<noteq> []"
    and "decklyst_get env c (SSR_SECRET env) = Inr (Some d)"
    and "privacy d = Private"
  shows "getStaticProps env (Some c) =
           Inr (Props \<lparr> code = c,
                        trpcState = \<lparr> mutations = filter isPaused (mutationCache (createSSGClient env)),
                                      queries = [] \<rparr>,
                        decklyst = None \<rparr>)"
  using assms by (simp add: getStaticProps_def fetch_Inr dehydrate_def)

text \<open>The private example deck, requested by its sharecode.\<close>

theorem getStaticProps_private_props_witness:
  "''abcd'' \<noteq> []
   \<and> decklyst_get (example_env [secret_deck]) ''abcd'' (SSR_SECRET (example_env [secret_deck]))
       = Inr (Some secret_deck)
   \<and> privacy secret_deck = Private
   \<and> getStaticProps (example_env [secret_deck]) (Some ''abcd'') =
       Inr (Props \<lparr> code = ''abcd'', trpcState = \<lparr> mutations = [], queries = [] \<rparr>,
                    decklyst = None \<rparr>)"
  using getStaticProps_private_props [of "''abcd''" "example_env [secret_deck]" secret_deck]
  by (simp add: example_env_def store_get_def secret_deck_def empty_client_def)

text \<open>
  C9. A code that resolves to a private decklyst does not give a not-found result:
  \<open>getStaticProps\<close> returns props, with the \<open>decklyst\<close> prop \<open>null\<close>.
\<close>

theorem getStaticProps_private_not_notFound:
  assumes "c \<noteq> []"
    and "decklyst_get env c (SSR_SECRET env) = Inr (Some d)"
    and "privacy d = Private"
  shows "\<exists>p. getStaticProps env (Some c) = Inr (Props p) \<and> decklyst p = None
           \<and> \<not> is_notFound (Props p)"
  using assms by (simp add: getStaticProps_def fetch_Inr)

text \<open>The private example deck, requested by its deckcode.\<close>

theorem getStaticProps_private_not_notFound_witness:
  "''MTox'' \<noteq> []
   \<and> decklyst_get (example_env [secret_deck]) ''MTox'' (SSR_SECRET (example_env [secret_deck]))
       = Inr (Some secret_deck)
   \<and> privacy secret_deck = Private
   \<and> (\<exists>p. getStaticProps (example_env [secret_deck]) (Some ''MTox'') = Inr (Props p)
          \<and> decklyst p = None \<and> \<not> is_notFound (Props p))"
  using getStaticProps_private_not_notFound [of "''MTox''" "example_env [secret_deck]" secret_deck]
  by (simp add: example_env_def store_get_def secret_deck_def)

text \<open>
  C2, as the code has it. \<open>getStaticProps\<close> returns a not-found result exactly when the
  code is absent or empty, or \<open>decklyst.get\<close> resolves no record. The length of the
  code plays no part.
\<close>

theorem getStaticProps_notFound_iff:
  "(\<exists>r. getStaticProps env params_code = Inr r \<and> is_notFound r) \<longleftrightarrow>
     (case params_code of
        None \<Rightarrow> True
      | Some c \<Rightarrow> c = [] \<or> decklyst_get env c (SSR_SECRET env) = Inr None)"
  by (auto simp: getStaticProps_def fetch_def Let_def split: option.splits sum.splits)

text \<open>An absent, an empty and an unknown code over a store of one deck.\<close>

theorem getStaticProps_notFound_iff_witness:
  "getStaticProps (example_env [secret_deck]) None = Inr (NotFound None)
   \<and> getStaticProps (example_env [secret_deck]) (Some []) = Inr (NotFound None)
   \<and> decklyst_get (example_env [secret_deck]) ''nope'' (SSR_SECRET (example_env [secret_deck])) = Inr None
   \<and> (\<exists>r. getStaticProps (example_env [secret_deck]) (Some ''nope'') = Inr r \<and> is_notFound r)"
proof -
  have n: "decklyst_get (example_env [secret_deck]) ''nope'' (SSR_SECRET (example_env [secret_deck]))
             = Inr None"
    by (simp add: example_env_def store_get_def secret_deck_def)
  have a: "getStaticProps (example_env [secret_deck]) None = Inr (NotFound None)"
    and b: "getStaticProps (example_env [secret_deck]) (Some []) = Inr (NotFound None)"
    by (simp_all add: getStaticProps_def)
  from getStaticProps_notFound_iff [of "example_env [secret_deck]" "Some ''nope''"] n a b
  show ?thesis by simp
qed

text \<open>
  C2, as the claim has it, fails: a stored deck whose deckcode has 206 characters is
  resolved by that code, and the page gets its props.
\<close>

theorem long_code_counterexample:
  "205 < length long_code \<and>
   getStaticProps (example_env [long_deck]) (Some long_code) =
     Inr (Props \<lparr> code = long_code,
                  trpcState = \<lparr> mutations = [],
                                queries = [\<lparr> queryKey = (long_code, ''s3cret''),
                                             queryData = Some long_deck \<rparr>] \<rparr>,
                  decklyst = Some long_deck \<rparr>)"
  by (simp add: getStaticProps_def fetch_def example_env_def store_get_def long_deck_def
      long_code_def empty_client_def dehydrate_def setQueryData_def)

subsection \<open>Static paths\<close>

lemma baseUniq_subset: "set (baseUniq f xs seen) \<subseteq> set xs"
  by (induction xs arbitrary: seen) auto

lemma baseUniq_fresh: "x \<in> set (baseUniq f xs seen) \<Longrightarrow> f x \<notin> set seen"
proof (induction xs arbitrary: seen)
  case Nil
  then show ?case by simp
next
  case (Cons y ys)
  show ?case
  proof (cases "f y \<in> set seen")
    case True
    with Cons.prems have "x \<in> set (baseUniq f ys seen)" by simp
    then show ?thesis by (rule Cons.IH)
  next
    case False
    with Cons.prems have "x = y \<or> x \<in> set (baseUniq f ys (f y # seen))" by simp
    then show ?thesis
    proof
      assume "x = y"
      with False show ?thesis by simp
    next
      assume "x \<in> set (baseUniq f ys (f y # seen))"
      then have "f x \<notin> set (f y # seen)" by (rule Cons.IH)
      then show ?thesis by simp
    qed
  qed
qed

lemma baseUniq_distinct: "distinct (map f (baseUniq f xs seen))"
  by (induction xs arbitrary: seen) (auto dest: baseUniq_fresh)

lemma baseUniq_first:
  "x \<in> set (baseUniq f xs seen) \<Longrightarrow> find (\<lambda>c. f c = f x) xs = Some x"
proof (induction xs arbitrary: seen)
  case Nil
  then show ?case by simp
next
  case (Cons y ys)
  show ?case
  proof (cases "f y \<in> set seen")
    case True
    with Cons.prems have mem: "x \<in> set (baseUniq f ys seen)" by simp
    then have "f x \<notin> set seen" by (rule baseUniq_fresh)
    with True have "f y \<noteq> f x" by auto
    with Cons.IH [OF mem] show ?thesis by simp
  next
    case False
    with Cons.prems have "x = y \<or> x \<in> set (baseUniq f ys (f y # seen))" by simp
    then show ?thesis
    proof
      assume "x = y"
      then show ?thesis by simp
    next
      assume mem: "x \<in> set (baseUniq f ys (f y # seen))"
      then have "f x \<notin> set (f y # seen)" by (rule baseUniq_fresh)
      then have "f y \<noteq> f x" by auto
      with Cons.IH [OF mem] show ?thesis by simp
    qed
  qed
qed

lemma baseUniq_complete: "f ` set (baseUniq f xs seen) = f ` set xs - set seen"
proof (induction xs arbitrary: seen)
  case Nil
  then show ?case by simp
next
  case (Cons y ys)
  show ?case
  proof (cases "f y \<in> set seen")
    case True
    then have "f ` set (baseUniq f (y # ys) seen) = f ` set ys - set seen"
      by (simp add: Cons.IH)
    also from True have "\<dots> = f ` set (y # ys) - set seen" by auto
    finally show ?thesis .
  next
    case False
    then have "f ` set (baseUniq f (y # ys) seen) = insert (f y) (f ` set ys - set (f y # seen))"
      by (simp add: Cons.IH)
    also from False have "\<dots> = f ` set (y # ys) - set seen" by auto
    finally show ?thesis .
  qed
qed

lemma candidate_paths_filter:
  "candidate_paths (filter (\<lambda>d. privacy d \<noteq> Private) db) = candidate_paths db"
  by (simp add: candidate_paths_def findMany_def)

lemma candidate_paths_origin:
  "p \<in> set (candidate_paths db) \<Longrightarrow>
   \<exists>d \<in> set db. privacy d \<noteq> Private \<and>
     (p = ''/decks/'' @ encodeURIComponent (deckcode d)
      \<or> p = ''/decks/'' @ encodeURIComponent (sharecode d))"
  by (auto simp: candidate_paths_def findMany_def)

text \<open>
  C5. Private decklysts contribute nothing to the static paths: dropping every private
  row from the table leaves the result of \<open>getStaticPaths\<close> unchanged, and every path
  it returns is the path of the deckcode or of the sharecode of a row that is not
  private.
\<close>

theorem getStaticPaths_excludes_private:
  "getStaticPaths (filter (\<lambda>d. privacy d \<noteq> Private) db) = getStaticPaths db \<and>
   (\<forall>p \<in> set (paths (getStaticPaths db)).
      \<exists>d \<in> set db. privacy d \<noteq> Private \<and>
        (p = ''/decks/'' @ encodeURIComponent (deckcode d)
         \<or> p = ''/decks/'' @ encodeURIComponent (sharecode d)))"
proof -
  have "set (paths (getStaticPaths db)) \<subseteq> set (candidate_paths db)"
    by (simp add: getStaticPaths_def uniqBy_def baseUniq_subset)
  then show ?thesis
    using candidate_paths_origin [of _ db]
    by (auto simp: getStaticPaths_def candidate_paths_filter)
qed

text \<open>A table with a private row between two rows that are not private.\<close>

theorem getStaticPaths_excludes_private_witness:
  "privacy d3 = Private \<and>
   getStaticPaths [d1, d3, d2] = getStaticPaths [d1, d2] \<and>
   paths (getStaticPaths [d1, d3, d2]) = [''/decks/MTox%20%5Ba%5D'', ''/decks/AbCd''] \<and>
   (\<exists>d \<in> set [d1, d3, d2]. privacy d \<noteq> Private \<and>
      (''/decks/AbCd'' = ''/decks/'' @ encodeURIComponent (deckcode d)
       \<or> ''/decks/AbCd'' = ''/decks/'' @ encodeURIComponent (sharecode d)))"
proof -
  have p: "paths (getStaticPaths [d1, d3, d2]) = [''/decks/MTox%20%5Ba%5D'', ''/decks/AbCd'']"
    by code_simp
  have f: "filter (\<lambda>d. privacy d \<noteq> Private) [d1, d3, d2] = [d1, d2]"
    by (simp add: d1_def d2_def d3_def)
  have "privacy d3 = Private" by (simp add: d3_def)
  with getStaticPaths_excludes_private [of "[d1, d3, d2]"] show ?thesis
    unfolding p f by simp
qed

text \<open>
  C6. The returned paths are the candidate paths deduplicated without regard to case:
  they are pairwise different after lower-casing, each of them is the first of the
  candidate paths with its lower-cased form, and every lower-cased form among the
  candidates is the form of a returned path.
\<close>

theorem getStaticPaths_dedup:
  "distinct (map toLowerCase (paths (getStaticPaths db))) \<and>
   (\<forall>p \<in> set (paths (getStaticPaths db)).
      find (\<lambda>c. toLowerCase c = toLowerCase p) (candidate_paths db) = Some p) \<and>
   toLowerCase ` set (paths (getStaticPaths db)) = toLowerCase ` set (candidate_paths db)"
  by (simp add: getStaticPaths_def uniqBy_def baseUniq_distinct baseUniq_first baseUniq_complete)

text \<open>
  Two decks whose codes differ in case only, followed by a third deck: the second deck
  is dropped and the third is kept.
\<close>

theorem getStaticPaths_dedup_witness:
  "candidate_paths [d1, d2, d4] =
     [''/decks/MTox%20%5Ba%5D'', ''/decks/AbCd'', ''/decks/mtOX%20%5BA%5D'', ''/decks/abcd'',
      ''/decks/Nzk5'', ''/decks/wxyz''] \<and>
   paths (getStaticPaths [d1, d2, d4]) =
     [''/decks/MTox%20%5Ba%5D'', ''/decks/AbCd'', ''/decks/Nzk5'', ''/decks/wxyz''] \<and>
   distinct (map toLowerCase (paths (getStaticPaths [d1, d2, d4]))) \<and>
   find (\<lambda>c. toLowerCase c = toLowerCase ''/decks/AbCd'') (candidate_paths [d1, d2, d4])
     = Some ''/decks/AbCd'' \<and>
   toLowerCase ''/decks/wxyz'' \<in> toLowerCase ` set (paths (getStaticPaths [d1, d2, d4]))"
proof -
  have p: "paths (getStaticPaths [d1, d2, d4]) =
     [''/decks/MTox%20%5Ba%5D'', ''/decks/AbCd'', ''/decks/Nzk5'', ''/decks/wxyz'']"
    by code_simp
  have c: "candidate_paths [d1, d2, d4] =
     [''/decks/MTox%20%5Ba%5D'', ''/decks/AbCd'', ''/decks/mtOX%20%5BA%5D'', ''/decks/abcd'',
      ''/decks/Nzk5'', ''/decks/wxyz'']"
    by code_simp
  from getStaticPaths_dedup [of "[d1, d2, d4]"]
  have "distinct (map toLowerCase (paths (getStaticPaths [d1, d2, d4])))"
    and "find (\<lambda>c. toLowerCase c = toLowerCase ''/decks/AbCd'') (candidate_paths [d1, d2, d4])
           = Some ''/decks/AbCd''"
    and "toLowerCase ''/decks/wxyz'' \<in> toLowerCase ` set (paths (getStaticPaths [d1, d2, d4]))"
    unfolding p c by simp_all
  with p c show ?thesis by simp
qed

section \<open>Properties of the retry options\<close>

lemma retryer_success: "fn n = Inr d \<Longrightarrow> retryer retry retryDelay fn n slept = Some (Inr d, slept)"
  by (subst retryer.simps) simp

lemma retryer_retry:
  "fn n = Inl e \<Longrightarrow> shouldRetry retry n e \<Longrightarrow>
   retryer retry retryDelay fn n slept = retryer retry retryDelay fn (Suc n) (slept @ [retryDelay n e])"
  by (subst retryer.simps) simp

lemma retryer_give_up:
  "fn n = Inl e \<Longrightarrow> \<not> shouldRetry retry n e \<Longrightarrow>
   retryer retry retryDelay fn n slept = Some (Inl e, slept)"
  by (subst retryer.simps) simp

lemma retryer_Some_imp_success:
  assumes "retryer retry retryDelay fn n slept = Some r"
  shows "retry = RetryBool True \<longrightarrow> (\<exists>k d. fn k = Inr d)"
  using assms
proof (induction retry retryDelay fn n slept r rule: retryer.raw_induct [rotated 1, consumes 1, case_names step])
  case (step rec retry retryDelay fn failureCount slept r)
  show ?case
  proof (cases "fn failureCount")
    case (Inr d)
    then show ?thesis by blast
  next
    case (Inl e)
    show ?thesis
    proof
      assume t: "retry = RetryBool True"
      with Inl step(2) have "rec retry retryDelay fn (Suc failureCount)
              (slept @ [retryDelay failureCount e]) = Some r" by simp
      from step(1) [OF this] t show "\<exists>k d. fn k = Inr d" by simp
    qed
  qed
qed

lemma retryer_success_imp_Some:
  "fn k = Inr d \<Longrightarrow> n \<le> k \<Longrightarrow> \<exists>r. retryer (RetryBool True) retryDelay fn n slept = Some r"
proof (induction "k - n" arbitrary: n slept)
  case 0
  then have "fn n = Inr d" by simp
  then show ?case by (simp add: retryer_success)
next
  case (Suc m)
  show ?case
  proof (cases "fn n")
    case (Inr d')
    then show ?thesis by (simp add: retryer_success)
  next
    case (Inl e)
    with Suc.prems have "n \<noteq> k" by auto
    with Suc have "m = k - Suc n" "Suc n \<le> k" by simp_all
    from Suc.hyps(1) [OF this(1) Suc.prems(1) this(2)]
    obtain r where "retryer (RetryBool True) retryDelay fn (Suc n) (slept @ [retryDelay n e]) = Some r"
      by blast
    with Inl show ?thesis by (simp add: retryer_retry)
  qed
qed

lemma retryer_unauthorized:
  assumes "map_option data_code (data err) = Some ''UNAUTHORIZED''"
  shows "retryer (RetryFn decklyst_get_retry) retryDelay (\<lambda>_. Inl err) 0 [] = Some (Inl err, [])"
  using assms by (simp add: retryer_give_up decklyst_get_retry_def)

lemma retryer_other_error:
  assumes "map_option data_code (data err) \<noteq> Some ''UNAUTHORIZED''"
  shows "retryer (RetryFn decklyst_get_retry) retryDelay (\<lambda>_. Inl err) 0 [] =
           Some (Inl err, [retryDelay 0 err, retryDelay 1 err, retryDelay 2 err])"
proof -
  let ?r = "RetryFn decklyst_get_retry"
  let ?fn = "\<lambda>_::nat. Inl err"
  have "retryer ?r retryDelay ?fn 0 [] = retryer ?r retryDelay ?fn (Suc 0) [retryDelay 0 err]"
    using assms by (subst retryer_retry [of _ _ err]) (simp_all add: decklyst_get_retry_def)
  also have "\<dots> = retryer ?r retryDelay ?fn (Suc (Suc 0)) [retryDelay 0 err, retryDelay 1 err]"
    using assms by (subst retryer_retry [of _ _ err]) (simp_all add: decklyst_get_retry_def)
  also have "\<dots> = retryer ?r retryDelay ?fn (Suc (Suc (Suc 0)))
                    [retryDelay 0 err, retryDelay 1 err, retryDelay 2 err]"
    using assms by (subst retryer_retry [of _ _ err]) (simp_all add: decklyst_get_retry_def numeral_2_eq_2)
  also have "\<dots> = Some (Inl err, [retryDelay 0 err, retryDelay 1 err, retryDelay 2 err])"
    by (subst retryer_give_up [of _ _ err]) (simp_all add: decklyst_get_retry_def)
  finally show ?thesis .
qed

text \<open>
  C3. The retry predicate of the \<open>decklyst.get\<close> query answers no to an error whose code
  is \<open>'UNAUTHORIZED'\<close>, and to any other error it answers yes exactly while the failure
  count is below three. Run by the retry loop on a query that keeps failing, an
  unauthorized error is not retried at all, and any other error is retried three times.
\<close>

theorem decklyst_get_retry_policy:
  "(map_option data_code (data err) = Some ''UNAUTHORIZED'' \<longrightarrow>
      \<not> decklyst_get_retry failureCount err
      \<and> retryer (RetryFn decklyst_get_retry) retryDelay (\<lambda>_. Inl err :: trpc_client_error + 'd) 0 []
          = Some (Inl err, []))
   \<and> (map_option data_code (data err) \<noteq> Some ''UNAUTHORIZED'' \<longrightarrow>
      decklyst_get_retry failureCount err = (failureCount < 3)
      \<and> retryer (RetryFn decklyst_get_retry) retryDelay (\<lambda>_. Inl err :: trpc_client_error + 'd) 0 [] =
          Some (Inl err, [retryDelay 0 err, retryDelay 1 err, retryDelay 2 err]))"
proof (intro conjI impI)
  assume u: "map_option data_code (data err) = Some ''UNAUTHORIZED''"
  then show "\<not> decklyst_get_retry failureCount err" by (simp add: decklyst_get_retry_def)
  from u show "retryer (RetryFn decklyst_get_retry) retryDelay (\<lambda>_. Inl err :: trpc_client_error + 'd) 0 []
          = Some (Inl err, [])" by (rule retryer_unauthorized)
next
  assume o: "map_option data_code (data err) \<noteq> Some ''UNAUTHORIZED''"
  then show "decklyst_get_retry failureCount err = (failureCount < 3)"
    unfolding decklyst_get_retry_def by (simp only: if_False)
  from o show "retryer (RetryFn decklyst_get_retry) retryDelay (\<lambda>_. Inl err :: trpc_client_error + 'd) 0 [] =
          Some (Inl err, [retryDelay 0 err, retryDelay 1 err, retryDelay 2 err])"
    by (rule retryer_other_error)
qed

text \<open>An unauthorized error and a timeout.\<close>

theorem decklyst_get_retry_policy_witness:
  "map_option data_code (data unauthorized_error) = Some ''UNAUTHORIZED''
   \<and> \<not> decklyst_get_retry 0 unauthorized_error
   \<and> map_option data_code (data timeout_error) \<noteq> Some ''UNAUTHORIZED''
   \<and> decklyst_get_retry 2 timeout_error
   \<and> \<not> decklyst_get_retry 3 timeout_error
   \<and> retryer (RetryFn decklyst_get_retry) (\<lambda>c _. 1000 * 2 ^ c :: nat) (\<lambda>_. Inl timeout_error :: trpc_client_error + unit) 0 []
        = Some (Inl timeout_error, [1000, 2000, 4000])"
proof -
  have u: "map_option data_code (data unauthorized_error) = Some ''UNAUTHORIZED''"
    by (simp add: unauthorized_error_def)
  have t: "map_option data_code (data timeout_error) \<noteq> Some ''UNAUTHORIZED''"
    by (simp add: timeout_error_def)
  show ?thesis
    using u t
      decklyst_get_retry_policy [where 'd = unit, of unauthorized_error 0 "\<lambda>c _. 1000 * 2 ^ c :: nat"]
      decklyst_get_retry_policy [where 'd = unit, of timeout_error 2 "\<lambda>c _. 1000 * 2 ^ c :: nat"]
      decklyst_get_retry_policy [where 'd = unit, of timeout_error 3 "\<lambda>c _. 1000 * 2 ^ c :: nat"]
    by simp
qed

lemma pow2_1024: "(2::real) ^ 1024 = 1024 * 2 ^ 1014"
proof -
  have "(2::real) ^ 1024 = 2 ^ (10 + 1014)" by simp
  also have "\<dots> = 2 ^ 10 * 2 ^ 1014" by (rule power_add)
  also have "\<dots> = 1024 * 2 ^ 1014" by simp
  finally show ?thesis .
qed

lemma delay_in_range:
  assumes "k \<le> 1014"
  shows "1000 * (2::real) ^ k < 2 ^ 1024"
proof -
  from assms have "(2::real) ^ k \<le> 2 ^ 1014" by (intro power_increasing) simp_all
  then have "1000 * (2::real) ^ k \<le> 1000 * 2 ^ 1014" by simp
  also have "\<dots> < 1024 * 2 ^ 1014" by simp
  finally show ?thesis by (simp only: pow2_1024)
qed

lemma delay_overflow:
  assumes "1015 \<le> k"
  shows "\<not> 1000 * (2::real) ^ k < 2 ^ 1024"
proof -
  have "(1024::real) * 2 ^ 1014 \<le> 1000 * 2 ^ 1015" by simp
  also from assms have "(2::real) ^ 1015 \<le> 2 ^ k" by (intro power_increasing) simp_all
  then have "1000 * (2::real) ^ 1015 \<le> 1000 * 2 ^ k" by simp
  finally have "(2::real) ^ 1024 \<le> 1000 * 2 ^ k" by (simp only: pow2_1024)
  then show ?thesis by simp
qed

lemma deck_image_retryDelay_eq:
  "deck_image_retryDelay n = (if n \<le> 1019 then Finite (1000 * 2 ^ (n - 5)) else PosInfinity)"
proof -
  have k: "nat (max 0 (int n - 5)) = n - 5" by simp
  show ?thesis
  proof (cases "n \<le> 1019")
    case True
    then have le: "n - 5 \<le> 1014" by simp
    then have p: "math_pow2 (n - 5) = Finite (2 ^ (n - 5))" by (simp add: math_pow2_def)
    from delay_in_range [OF le] True show ?thesis
      unfolding deck_image_retryDelay_def k p by (simp only: jsnum.case if_True)
  next
    case False
    then have ge: "1015 \<le> n - 5" by simp
    show ?thesis
    proof (cases "n - 5 \<le> 1023")
      case True
      then have p: "math_pow2 (n - 5) = Finite (2 ^ (n - 5))" by (simp add: math_pow2_def)
      from delay_overflow [OF ge] False show ?thesis
        unfolding deck_image_retryDelay_def k p by (simp only: jsnum.case if_False)
    next
      case inf: False
      then have p: "math_pow2 (n - 5) = PosInfinity" by (simp add: math_pow2_def)
      from False show ?thesis
        unfolding deck_image_retryDelay_def k p by (simp only: jsnum.case if_False)
    qed
  qed
qed

text \<open>
  C4, as the code has it. The delay before retry \<open>n\<close> of the deck-image query is
  \<open>1000 * 2 ^ max(0, n - 5)\<close> milliseconds for every count up to 1019, and is
  \<open>Infinity\<close> from count 1020, where the double overflows. The retry option is
  \<open>true\<close>: a failure is retried at every failure count, and the retry loop returns
  exactly when some attempt succeeds.
\<close>

theorem deck_image_retry_unbounded:
  "deck_image_retryDelay n = (if n \<le> 1019 then Finite (1000 * 2 ^ (n - 5)) else PosInfinity)
   \<and> shouldRetry deck_image_retry n e
   \<and> ((\<exists>r. retryer deck_image_retry (\<lambda>c _. deck_image_retryDelay c) fn 0 [] = Some r)
        \<longleftrightarrow> (\<exists>k d. fn k = Inr d))"
proof -
  have "(\<exists>r. retryer (RetryBool True) (\<lambda>c _. deck_image_retryDelay c) fn 0 [] = Some r)
        \<longleftrightarrow> (\<exists>k d. fn k = Inr d)" (is "?L \<longleftrightarrow> ?R")
  proof
    assume ?L
    then obtain r where "retryer (RetryBool True) (\<lambda>c _. deck_image_retryDelay c) fn 0 [] = Some r" ..
    from retryer_Some_imp_success [OF this] show ?R by simp
  next
    assume ?R
    then obtain k d where "fn k = Inr d" by blast
    then show ?L by (rule retryer_success_imp_Some) simp
  qed
  moreover have "shouldRetry deck_image_retry n e" by (simp add: deck_image_retry_def)
  ultimately show ?thesis
    using deck_image_retryDelay_eq [of n] by (simp add: deck_image_retry_def)
qed

text \<open>
  An image that is ready at the eighth attempt, after seven retries; and the delays at
  the counts 1019 and 1020.
\<close>

theorem deck_image_retry_unbounded_witness:
  "deck_image_retryDelay 7 = Finite 4000
   \<and> deck_image_retryDelay 1019 = Finite (1000 * 2 ^ 1014)
   \<and> deck_image_retryDelay 1020 = PosInfinity
   \<and> retryer deck_image_retry (\<lambda>c _. deck_image_retryDelay c) (image_ready_after 7) 0 []
       = Some (Inr ''data:image/png'',
               [Finite 1000, Finite 1000, Finite 1000, Finite 1000, Finite 1000, Finite 1000,
                Finite 2000])"
proof -
  have r: "retryer deck_image_retry (\<lambda>c _. deck_image_retryDelay c) (image_ready_after 7) 0 []
       = Some (Inr ''data:image/png'',
               [Finite 1000, Finite 1000, Finite 1000, Finite 1000, Finite 1000, Finite 1000,
                Finite 2000])"
    by (simp add: retryer.simps deck_image_retry_def image_ready_after_def
        deck_image_retryDelay_eq)
  from deck_image_retry_unbounded [of 7 "''image not ready''" "image_ready_after 7"]
  have a: "deck_image_retryDelay 7 = Finite 4000" by simp
  from deck_image_retry_unbounded [of 1019 "''image not ready''" "image_ready_after 7"]
  have b: "deck_image_retryDelay 1019 = Finite (1000 * 2 ^ 1014)" by simp
  from deck_image_retry_unbounded [of 1020 "''image not ready''" "image_ready_after 7"]
  have c: "deck_image_retryDelay 1020 = PosInfinity" by simp
  from a b c r show ?thesis by (simp only: simp_thms)
qed

text \<open>
  C4, as the claim has it, fails: no attempt count caps the retries. When every attempt
  fails the retry loop never returns.
\<close>

theorem deck_image_retry_counterexample:
  "retryer deck_image_retry (\<lambda>c _. deck_image_retryDelay c)
     (\<lambda>_. Inl ''image not ready'' :: string + string) 0 [] = None"
proof (cases "retryer deck_image_retry (\<lambda>c _. deck_image_retryDelay c)
     (\<lambda>_. Inl ''image not ready'' :: string + string) 0 []")
  case None
  then show ?thesis .
next
  case (Some r)
  from retryer_Some_imp_success [OF Some] show ?thesis by (simp add: deck_image_retry_def)
qed

section \<open>Properties of the server-side deck page\<close>

lemma resolve_codes_calls:
  "resolve_codes env snapshot query_code = (r, calls) \<Longrightarrow> RegisterView dc ip \<notin> set calls"
  by (auto simp: resolve_codes_def split: option.splits if_splits sum.splits)

text \<open>
  C7. When the deckcode the page continues with passes \<open>validateDeckcode\<close> and the deck
  created from it has no cards, \<open>getServerSideProps\<close> returns a not-found result; and
  whenever it returns props, the deck in them has at least one card.
\<close>

theorem getServerSideProps_zero_cards:
  "(resolve_codes env (snapshot_of env query_snapshot) query_code = (Inr (dcode, scode), calls)
      \<and> validateDeckcode env dcode \<and> cards (createDeck env dcode) = []
    \<longrightarrow> getServerSideProps env req query_code query_snapshot = (Inr SsrNotFound, calls))
   \<and> (\<forall>p calls'. getServerSideProps env req query_code query_snapshot = (Inr (SsrProps p), calls')
         \<longrightarrow> cards (deck p) \<noteq> [])"
proof (intro conjI impI allI)
  assume "resolve_codes env (snapshot_of env query_snapshot) query_code = (Inr (dcode, scode), calls)
      \<and> validateDeckcode env dcode \<and> cards (createDeck env dcode) = []"
  then show "getServerSideProps env req query_code query_snapshot = (Inr SsrNotFound, calls)"
    by (simp add: getServerSideProps_def)
next
  fix p calls'
  assume "getServerSideProps env req query_code query_snapshot = (Inr (SsrProps p), calls')"
  then show "cards (deck p) \<noteq> []"
    by (auto simp: getServerSideProps_def Let_def split: prod.splits sum.splits if_splits)
qed

text \<open>A valid deckcode without cards, and a sharecode of a deck with one card.\<close>

theorem getServerSideProps_zero_cards_witness:
  "resolve_codes example_ssr_env (snapshot_of example_ssr_env None) (Some ''MDo='')
     = (Inr (Some ''MDo='', None), [EnsureDeckinfo ''MDo=''])
   \<and> validateDeckcode example_ssr_env (Some ''MDo='')
   \<and> cards (createDeck example_ssr_env (Some ''MDo='')) = []
   \<and> getServerSideProps example_ssr_env ''10.0.0.1'' (Some ''MDo='') None
       = (Inr SsrNotFound, [EnsureDeckinfo ''MDo=''])
   \<and> getServerSideProps example_ssr_env ''10.0.0.1'' (Some ''abcd'') None
       = (Inr (SsrProps \<lparr> deck = \<lparr> cards = [1] \<rparr>, meta_sharecode = Some ''abcd'', isSnapshot = False \<rparr>),
          [EnsureDeckinfo ''abcd'', RegisterView (Some ''MTox'') ''10.0.0.1''])"
proof -
  have r: "resolve_codes example_ssr_env (snapshot_of example_ssr_env None) (Some ''MDo='')
     = (Inr (Some ''MDo='', None), [EnsureDeckinfo ''MDo=''])"
    by (simp add: resolve_codes_def snapshot_of_def example_ssr_env_def example_toNumber_def
        example_deckinfo_def)
  have v: "validateDeckcode example_ssr_env (Some ''MDo='')"
    and c: "cards (createDeck example_ssr_env (Some ''MDo='')) = []"
    by (simp_all add: example_ssr_env_def)
  have p: "getServerSideProps example_ssr_env ''10.0.0.1'' (Some ''abcd'') None
       = (Inr (SsrProps \<lparr> deck = \<lparr> cards = [1] \<rparr>, meta_sharecode = Some ''abcd'', isSnapshot = False \<rparr>),
          [EnsureDeckinfo ''abcd'', RegisterView (Some ''MTox'') ''10.0.0.1''])"
    by (simp add: getServerSideProps_def resolve_codes_def snapshot_of_def example_ssr_env_def
        example_toNumber_def example_deckinfo_def)
  from getServerSideProps_zero_cards
         [of example_ssr_env None "Some ''MDo=''" "Some ''MDo=''" None "[EnsureDeckinfo ''MDo='']"
             "''10.0.0.1''"]
  show ?thesis using r v c p by simp
qed

text \<open>
  C8. \<open>getServerSideProps\<close> issues the \<open>registerView\<close> call if and only if the request
  is not a snapshot view and the deckcode it continues with is valid and creates a deck
  with at least one card. A snapshot view never registers a view.
\<close>

theorem getServerSideProps_registerView_iff:
  "(\<exists>dc ip. RegisterView dc ip \<in> set (snd (getServerSideProps env req query_code query_snapshot)))
   \<longleftrightarrow>
   (\<not> snapshot_of env query_snapshot
    \<and> (\<exists>dcode scode calls.
          resolve_codes env (snapshot_of env query_snapshot) query_code = (Inr (dcode, scode), calls)
          \<and> validateDeckcode env dcode \<and> cards (createDeck env dcode) \<noteq> []))"
proof (cases "resolve_codes env (snapshot_of env query_snapshot) query_code")
  case (Pair r calls)
  note no = resolve_codes_calls [OF Pair]
  show ?thesis
  proof (cases r)
    case (Inl e)
    with Pair no show ?thesis by (simp add: getServerSideProps_def)
  next
    case (Inr codes)
    obtain dcode scode where codes: "codes = (dcode, scode)" by (cases codes)
    with Pair Inr no show ?thesis
      by (auto simp: getServerSideProps_def Let_def split: sum.splits)
  qed
qed

text \<open>The same sharecode requested as a live view and as a snapshot view.\<close>

theorem getServerSideProps_registerView_iff_witness:
  "RegisterView (Some ''MTox'') ''10.0.0.1''
     \<in> set (snd (getServerSideProps example_ssr_env ''10.0.0.1'' (Some ''abcd'') None))
   \<and> \<not> snapshot_of example_ssr_env None
   \<and> snapshot_of example_ssr_env (Some ''1'')
   \<and> snd (getServerSideProps example_ssr_env ''10.0.0.1'' (Some ''abcd'') (Some ''1''))
        = [GetDeckinfo ''abcd'']"
proof -
  have a: "snd (getServerSideProps example_ssr_env ''10.0.0.1'' (Some ''abcd'') None)
            = [EnsureDeckinfo ''abcd'', RegisterView (Some ''MTox'') ''10.0.0.1'']"
    by (simp add: getServerSideProps_def resolve_codes_def snapshot_of_def example_ssr_env_def
        example_toNumber_def example_deckinfo_def)
  have b: "snd (getServerSideProps example_ssr_env ''10.0.0.1'' (Some ''abcd'') (Some ''1''))
        = [GetDeckinfo ''abcd'']"
    by (simp add: getServerSideProps_def resolve_codes_def snapshot_of_def example_ssr_env_def
        example_toNumber_def example_deckinfo_def)
  have s: "\<not> snapshot_of example_ssr_env None" "snapshot_of example_ssr_env (Some ''1'')"
    by (simp_all add: snapshot_of_def example_ssr_env_def example_toNumber_def)
  from getServerSideProps_registerView_iff [of example_ssr_env "''10.0.0.1''" "Some ''abcd''" None]
  show ?thesis using a b s by simp
qed

section \<open>Properties of the save-deck dialog\<close>

text \<open>
  C10. While a save is in flight, \<open>handleClose\<close> does not call \<open>onClose\<close>: whatever
  the callback does, the state it acts on is left as it was.
\<close>

theorem handleClose_while_saving:
  "isSaving \<Longrightarrow> handleClose onClose isSaving s = s"
  by (simp add: handleClose_def)

text \<open>A callback that records its calls.\<close>

theorem handleClose_while_saving_witness:
  "handleClose (\<lambda>calls. calls @ [''onClose'']) True [] = []
   \<and> handleClose (\<lambda>calls. calls @ [''onClose'']) False [] = [''onClose'']"
  using handleClose_while_saving [of True "\<lambda>calls. calls @ [''onClose'']" "[]"]
  by (simp add: handleClose_def)

end
